theory Spec2Isabelle
  imports Complex_Main
begin

section \<open>JavaScript values and string operations used by \<^verbatim>\<open>server.js\<close>\<close>

text \<open>
  A value read out of an object literal or a JSON body. \<open>Inherited k\<close> is the member \<open>k\<close>
  that every object literal inherits from \<^verbatim>\<open>Object.prototype\<close> (a function, or the prototype
  object itself for \<^verbatim>\<open>__proto__\<close>): it is what \<^verbatim>\<open>BASE_PRICES[key]\<close> evaluates to when \<open>key\<close>
  is not an own property but names such a member.
\<close>

datatype jsval = Undefined | Num int | NaN | Inherited string

text \<open>JavaScript truthiness, as used by \<^verbatim>\<open>!x\<close> and \<^verbatim>\<open>if (x)\<close>.\<close>

fun truthy :: "jsval \<Rightarrow> bool" where
  "truthy Undefined = False"
| "truthy (Num n) = (n \<noteq> 0)"
| "truthy NaN = False"
| "truthy (Inherited k) = True"

text \<open>The property names of \<^verbatim>\<open>Object.prototype\<close>.\<close>

definition object_prototype_keys :: "string list" where
  "object_prototype_keys =
     [''constructor'', ''__defineGetter__'', ''__defineSetter__'', ''hasOwnProperty'',
      ''__lookupGetter__'', ''__lookupSetter__'', ''isPrototypeOf'', ''propertyIsEnumerable'',
      ''toString'', ''valueOf'', ''__proto__'', ''toLocaleString'']"

text \<open>\<^verbatim>\<open>s.startsWith(p)\<close>, the helper of the two string searches below.\<close>

fun starts_with :: "string \<Rightarrow> string \<Rightarrow> bool" where
  "starts_with s [] = True"
| "starts_with [] (p # ps) = False"
| "starts_with (c # s) (p # ps) = (c = p \<and> starts_with s ps)"

text \<open>\<^verbatim>\<open>s.includes(p)\<close>: \<open>p\<close> occurs somewhere in \<open>s\<close>.\<close>

fun includes_str :: "string \<Rightarrow> string \<Rightarrow> bool" where
  "includes_str [] p = (p = [])"
| "includes_str (c # s) p = (starts_with (c # s) p \<or> includes_str s p)"

text \<open>\<^verbatim>\<open>s.replace(p, r)\<close> with a string pattern: only the first occurrence is replaced.\<close>

fun replace :: "string \<Rightarrow> string \<Rightarrow> string \<Rightarrow> string" where
  "replace [] p r = (if p = [] then r else [])"
| "replace (c # s) p r =
     (if starts_with (c # s) p then r @ drop (length p) (c # s) else c # replace s p r)"

text \<open>
  \<^verbatim>\<open>s.toUpperCase()\<close> on the ASCII letters; every other character is left as it is.
\<close>

definition upper_char :: "char \<Rightarrow> char" where
  "upper_char c =
     (case map_of (zip ''abcdefghijklmnopqrstuvwxyz'' ''ABCDEFGHIJKLMNOPQRSTUVWXYZ'') c of
        Some u \<Rightarrow> u
      | None \<Rightarrow> c)"

definition toUpperCase :: "string \<Rightarrow> string" where
  "toUpperCase s = map upper_char s"

subsection \<open>\<^verbatim>\<open>Math.round(amount * 10.8)\<close> in binary64\<close>

text \<open>
  \<^verbatim>\<open>10.8\<close> is not a binary fraction: the literal denotes the nearest double,
  \<open>6079859496950170 / 2^49\<close>. The product of an integer with it is the exact product
  rounded to 53 significant bits, ties to even; \<^verbatim>\<open>Math.round\<close> then takes the nearest integer,
  ties upwards. The amounts are integers of magnitude below \<open>2^53\<close>, which a double holds
  exactly.
\<close>

function bit_length :: "int \<Rightarrow> nat" where
  "bit_length n = (if n \<le> 0 then 0 else Suc (bit_length (n div 2)))"
  by pat_completeness auto
termination
  by (relation "measure nat") auto

declare bit_length.simps [simp del]

definition round53 :: "int \<Rightarrow> int" where
  "round53 p =
     (if bit_length p \<le> 53 then p
      else let s = bit_length p - 53;
               q = p div 2 ^ s;
               r = p mod 2 ^ s;
               h = 2 ^ (s - 1)
           in (if h < r \<or> (r = h \<and> odd q) then q + 1 else q) * 2 ^ s)"

definition times_10_8 :: "int \<Rightarrow> rat" where
  "times_10_8 a = of_int (sgn a * round53 (\<bar>a\<bar> * 6079859496950170)) / 2 ^ 49"

definition Math_round :: "rat \<Rightarrow> int" where
  "Math_round x = \<lfloor>x + 1 / 2\<rfloor>"

text \<open>\<^verbatim>\<open>Math.round(amount * 10.8)\<close> on a value: anything but a number gives \<^verbatim>\<open>NaN\<close>.\<close>

fun yearly_amount :: "jsval \<Rightarrow> jsval" where
  "yearly_amount (Num a) = Num (Math_round (times_10_8 a))"
| "yearly_amount v = NaN"

section \<open>Catalogs\<close>

record discount =
  name :: string
  standard :: jsval
  pro :: jsval
  standardOnly :: bool
  proOnly :: bool

text \<open>
  \<^verbatim>\<open>DISCOUNT_CODES[code]\<close>. The keys are looked up after \<^verbatim>\<open>toUpperCase\<close>, and no member of
  \<^verbatim>\<open>Object.prototype\<close> has an upper-case name, so only the four own entries are ever found.
\<close>

definition DISCOUNT_CODES :: "string \<Rightarrow> discount option" where
  "DISCOUNT_CODES code =
     (if code = ''DX9Q-7M2A-K8P4'' then
        Some \<lparr>name = ''DX9Q-7M2A-K8P4'', standard = Num 700000, pro = Undefined,
              standardOnly = True, proOnly = False\<rparr>
      else if code = ''R5TQ-Z91L-A7XK'' then
        Some \<lparr>name = ''R5TQ-Z91L-A7XK'', standard = Num 700000, pro = Undefined,
              standardOnly = True, proOnly = False\<rparr>
      else if code = ''MP8A-QX47-L9TZ'' then
        Some \<lparr>name = ''MP8A-QX47-L9TZ'', standard = Undefined, pro = Num 1100000,
              standardOnly = False, proOnly = True\<rparr>
      else if code = ''K2Z9-PAX6-M7QF'' then
        Some \<lparr>name = ''K2Z9-PAX6-M7QF'', standard = Undefined, pro = Num 1100000,
              standardOnly = False, proOnly = True\<rparr>
      else None)"

text \<open>
  \<^verbatim>\<open>BASE_PRICES[planKey]\<close> (prices in kobo): an own property, else an inherited member, else
  \<^verbatim>\<open>undefined\<close>.
\<close>

definition BASE_PRICES :: "string \<Rightarrow> jsval" where
  "BASE_PRICES planKey =
     (if planKey = ''standard_monthly'' then Num 1600000
      else if planKey = ''standard_yearly'' then Num 17280000
      else if planKey = ''pro_monthly'' then Num 2200000
      else if planKey = ''pro_yearly'' then Num 23760000
      else if planKey \<in> set object_prototype_keys then Inherited planKey
      else Undefined)"

section \<open>Dates\<close>

text \<open>
  A point in time in its broken-down UTC fields, as \<^verbatim>\<open>toISOString\<close> prints it: \<open>month\<close>
  counts from 0, \<open>day\<close> from 1, \<open>msec\<close> is the time within the day. The same record
  holds local fields where a time has been moved into the time zone of the process.
\<close>

record jsdate =
  year :: int
  month :: nat
  day :: nat
  msec :: nat

definition leap_year :: "int \<Rightarrow> bool" where
  "leap_year y = (y mod 4 = 0 \<and> (y mod 100 \<noteq> 0 \<or> y mod 400 = 0))"

definition days_in_month :: "int \<Rightarrow> nat \<Rightarrow> nat" where
  "days_in_month y m =
     (if m = 1 then (if leap_year y then 29 else 28)
      else if m = 3 \<or> m = 5 \<or> m = 8 \<or> m = 10 then 30
      else 31)"

text \<open>
  A day number past the end of its month runs on into the following months, as the
  day arithmetic of \<^verbatim>\<open>MakeDay\<close> has it (\<^verbatim>\<open>new Date(2023, 1, 31)\<close> is 3 March 2023).
\<close>

function roll_over :: "int \<Rightarrow> nat \<Rightarrow> nat \<Rightarrow> int \<times> nat \<times> nat" where
  "roll_over y m d =
     (if days_in_month y m < d then
        (if m = 11 then roll_over (y + 1) 0 (d - days_in_month y m)
         else roll_over y (m + 1) (d - days_in_month y m))
      else (y, m, d))"
  by pat_completeness auto
termination
  by (relation "measure (\<lambda>(y, m, d). d)") (auto simp: days_in_month_def)

declare roll_over.simps [simp del]

text \<open>\<^verbatim>\<open>MakeDay(year, month, date)\<close> for a month index at or past 0 and a day at or past 1.\<close>

definition MakeDay :: "int \<Rightarrow> nat \<Rightarrow> nat \<Rightarrow> int \<times> nat \<times> nat" where
  "MakeDay y m dt = roll_over (y + int (m div 12)) (m mod 12) dt"

text \<open>
  The time zone of the process, which the source does not fix: \<open>LocalTime\<close> takes UTC
  fields to the local ones and \<open>UTC\<close> takes local fields back, as the two abstract
  operations of that name do. The getters and setters of a \<^verbatim>\<open>Date\<close> work on the local
  fields; the value kept, and printed by \<^verbatim>\<open>toISOString\<close>, is in UTC.
\<close>

record zone =
  LocalTime :: "jsdate \<Rightarrow> jsdate"
  UTC :: "jsdate \<Rightarrow> jsdate"

definition getFullYear :: "zone \<Rightarrow> jsdate \<Rightarrow> int" where
  "getFullYear z t = year (LocalTime z t)"

definition getMonth :: "zone \<Rightarrow> jsdate \<Rightarrow> nat" where
  "getMonth z t = month (LocalTime z t)"

definition setFullYear :: "zone \<Rightarrow> jsdate \<Rightarrow> int \<Rightarrow> jsdate" where
  "setFullYear z t y =
     (let l = LocalTime z t in
      case MakeDay y (month l) (day l) of
        (y', m', d') \<Rightarrow> UTC z (l\<lparr>year := y', month := m', day := d'\<rparr>))"

definition setMonth :: "zone \<Rightarrow> jsdate \<Rightarrow> nat \<Rightarrow> jsdate" where
  "setMonth z t m =
     (let l = LocalTime z t in
      case MakeDay (year l) m (day l) of
        (y', m', d') \<Rightarrow> UTC z (l\<lparr>year := y', month := m', day := d'\<rparr>))"

section \<open>Tables, requests and responses\<close>

text \<open>A row of the \<^verbatim>\<open>users\<close> table; \<open>uid\<close> is its \<^verbatim>\<open>id\<close> column.\<close>

record user =
  uid :: string
  full_name :: string
  email :: string
  password :: string
  is_subscribed :: bool

text \<open>
  The \<^verbatim>\<open>metadata\<close> object of a gateway transaction. A field that the JSON lacks is \<open>None\<close>
  (or \<open>Undefined\<close>); \<open>plan = None\<close> stands for any value that has no \<^verbatim>\<open>includes\<close> method.
\<close>

record intent =
  userId :: "string option"
  fullName :: "string option"
  plan :: "string option"
  discountCode :: "string option"
  originalAmount :: jsval
  finalAmount :: jsval

text \<open>The transaction record of the gateway: \<^verbatim>\<open>response.data.data\<close>, or \<^verbatim>\<open>event.data\<close>.\<close>

record charge =
  status :: string
  amount :: jsval
  reference :: "string option"
  metadata :: "intent option"

text \<open>A row of the \<^verbatim>\<open>subscriptions\<close> table, with the columns the insert writes.\<close>

record subscription =
  user_id :: "string option"
  sub_plan :: string
  sub_amount :: jsval
  sub_reference :: "string option"
  discount_code :: "string option"
  sub_status :: string
  start_date :: jsdate
  end_date :: jsdate

record store =
  users :: "user list"
  subscriptions :: "subscription list"

text \<open>
  What a handler meets when it runs: whether the store carries out the update and the
  insert (a query of the client resolves to \<^verbatim>\<open>{ data, error }\<close> either way, and the handlers
  never read it), the time zone of the process, and the two readings of the clock, the
  first by \<^verbatim>\<open>const endDate = new Date()\<close>, the second by
  \<^verbatim>\<open>start_date: new Date().toISOString()\<close>.
\<close>

record io =
  update_ok :: bool
  insert_ok :: bool
  time_zone :: zone
  clock_end :: jsdate
  clock_start :: jsdate

text \<open>The outcome of the \<^verbatim>\<open>authenticate\<close> middleware; \<open>Authenticated\<close> carries \<^verbatim>\<open>req.user\<close>.\<close>

record claims =
  caller_id :: string
  caller_email :: string

datatype auth = NoToken | InvalidToken | Authenticated claims

text \<open>
  An \<^verbatim>\<open>axios\<close> call: the promise rejects, or it resolves and \<^verbatim>\<open>response.data\<close> is the body
  (\<open>None\<close> when it is falsy).
\<close>

datatype 'a http = Threw | Returned "'a option"

record init_request =
  req_plan :: "string option"
  req_discountCode :: "string option"

record gateway_request =
  gw_email :: string
  gw_amount :: jsval
  gw_currency :: string
  gw_metadata :: intent
  gw_callback_url :: string

record init_data =
  authorization_url :: string
  access_code :: string
  init_reference :: string

record init_body =
  init_status :: bool
  init_payload :: "init_data option"

record verify_body =
  verify_payload :: "charge option"

record webhook_body =
  event :: "string option"
  data :: "charge option"

datatype payload =
    Message string
  | Initialized string string string
  | Verified string jsdate
  | Plain string

type_synonym response = "nat \<times> payload"

text \<open>\<^verbatim>\<open>.single()\<close>: the row, if the query matches exactly one.\<close>

fun single :: "'a list \<Rightarrow> 'a option" where
  "single [x] = Some x"
| "single xs = None"

section \<open>\<^verbatim>\<open>POST /payment/initialize\<close>\<close>

text \<open>The block under \<^verbatim>\<open>// Apply discount\<close>: the amount and \<^verbatim>\<open>appliedDiscount\<close> it leaves.\<close>

definition apply_discount :: "string \<Rightarrow> string option \<Rightarrow> jsval \<Rightarrow> jsval \<times> string option" where
  "apply_discount pl dc base =
     (case dc of
        None \<Rightarrow> (base, None)
      | Some given \<Rightarrow>
          if given = [] then (base, None)
          else
            let code = toUpperCase given in
            (case DISCOUNT_CODES code of
               None \<Rightarrow> (base, None)
             | Some discount \<Rightarrow>
                 if includes_str pl ''standard'' \<and> standardOnly discount then
                   (if includes_str pl ''yearly'' then yearly_amount (standard discount)
                    else standard discount, Some code)
                 else if includes_str pl ''pro'' \<and> proOnly discount then
                   (if includes_str pl ''yearly'' then yearly_amount (pro discount)
                    else pro discount, Some code)
                 else (base, None)))"

text \<open>
  The handler returns the store it leaves, the request it sent to the gateway (if it got
  that far) and its response. A missing \<^verbatim>\<open>plan\<close> makes \<^verbatim>\<open>plan.replace\<close> throw into the
  \<^verbatim>\<open>catch\<close> block.
\<close>

definition payment_initialize ::
  "string \<Rightarrow> auth \<Rightarrow> init_request \<Rightarrow> init_body http \<Rightarrow> store
     \<Rightarrow> store \<times> gateway_request option \<times> response" where
  "payment_initialize FRONTEND_URL a rq reply st =
     (case a of
        NoToken \<Rightarrow> (st, None, (401, Message ''Access token required''))
      | InvalidToken \<Rightarrow> (st, None, (403, Message ''Invalid or expired token''))
      | Authenticated caller \<Rightarrow>
          (case single (filter (\<lambda>u. uid u = caller_id caller) (users st)) of
             None \<Rightarrow> (st, None, (404, Message ''User not found''))
           | Some u \<Rightarrow>
               (case req_plan rq of
                  None \<Rightarrow> (st, None, (500, Message ''Payment initialization failed''))
                | Some pl \<Rightarrow>
                    let planKey = replace pl ''_discounted'' [] in
                    if \<not> truthy (BASE_PRICES planKey) then
                      (st, None, (400, Message ''Invalid plan''))
                    else
                      let (amt, appliedDiscount) =
                            apply_discount pl (req_discountCode rq) (BASE_PRICES planKey);
                          sent = \<lparr>gw_email = email u, gw_amount = amt, gw_currency = ''NGN'',
                                  gw_metadata =
                                    \<lparr>userId = Some (uid u), fullName = Some (full_name u),
                                     plan = Some pl, discountCode = appliedDiscount,
                                     originalAmount = BASE_PRICES planKey, finalAmount = amt\<rparr>,
                                  gw_callback_url = FRONTEND_URL @ ''/dashboard.html''\<rparr>
                      in
                      (case reply of
                         Threw \<Rightarrow>
                           (st, Some sent, (500, Message ''Payment initialization failed''))
                       | Returned None \<Rightarrow>
                           (st, Some sent, (500, Message ''Payment initialization failed''))
                       | Returned (Some b) \<Rightarrow>
                           if init_status b then
                             (case init_payload b of
                                None \<Rightarrow>
                                  (st, Some sent,
                                   (500, Message ''Payment initialization failed''))
                              | Some d \<Rightarrow>
                                  (st, Some sent,
                                   (200, Initialized (authorization_url d) (access_code d)
                                           (init_reference d))))
                           else
                             (st, Some sent,
                              (500, Message ''Payment initialization failed''))))))"

section \<open>\<^verbatim>\<open>GET /payment/verify/:reference\<close>\<close>

text \<open>
  The row is inserted under the \<^verbatim>\<open>reference\<close> of the URL. A body without \<^verbatim>\<open>data\<close>, a record
  without \<^verbatim>\<open>metadata\<close> and a \<^verbatim>\<open>metadata\<close> without \<^verbatim>\<open>plan\<close> each throw a \<^verbatim>\<open>TypeError\<close> into the
  \<^verbatim>\<open>catch\<close> block; the last one after the update of the user.
\<close>

definition payment_verify ::
  "auth \<Rightarrow> string \<Rightarrow> verify_body http \<Rightarrow> io \<Rightarrow> store \<Rightarrow> store \<times> response" where
  "payment_verify a ref reply env st =
     (case a of
        NoToken \<Rightarrow> (st, (401, Message ''Access token required''))
      | InvalidToken \<Rightarrow> (st, (403, Message ''Invalid or expired token''))
      | Authenticated caller \<Rightarrow>
          (case reply of
             Threw \<Rightarrow> (st, (500, Message ''Verification failed''))
           | Returned None \<Rightarrow> (st, (400, Message ''Payment verification failed''))
           | Returned (Some b) \<Rightarrow>
               (case verify_payload b of
                  None \<Rightarrow> (st, (500, Message ''Verification failed''))
                | Some d \<Rightarrow>
                    if status d = ''success'' then
                      (case metadata d of
                         None \<Rightarrow> (st, (500, Message ''Verification failed''))
                       | Some md \<Rightarrow>
                           let st1 =
                                 (if update_ok env then
                                    st\<lparr>users :=
                                         map (\<lambda>u. if Some (uid u) = userId md
                                                   then u\<lparr>is_subscribed := True\<rparr> else u)
                                           (users st)\<rparr>
                                  else st)
                           in
                           (case plan md of
                              None \<Rightarrow> (st1, (500, Message ''Verification failed''))
                            | Some pl \<Rightarrow>
                                let endDate =
                                      (if includes_str pl ''yearly''
                                       then setFullYear (time_zone env) (clock_end env)
                                              (getFullYear (time_zone env) (clock_end env) + 1)
                                       else setMonth (time_zone env) (clock_end env)
                                              (getMonth (time_zone env) (clock_end env) + 1));
                                    row = \<lparr>user_id = userId md, sub_plan = pl,
                                           sub_amount = amount d, sub_reference = Some ref,
                                           discount_code = discountCode md,
                                           sub_status = ''active'',
                                           start_date = clock_start env, end_date = endDate\<rparr>;
                                    st2 =
                                      (if insert_ok env then
                                         st1\<lparr>subscriptions := subscriptions st1 @ [row]\<rparr>
                                       else st1)
                                in (st2, (200, Verified pl endDate))))
                    else (st, (400, Message ''Payment verification failed'')))))"

section \<open>\<^verbatim>\<open>POST /payment/webhook\<close>\<close>

text \<open>No middleware guards this route; the row is inserted under \<^verbatim>\<open>data.reference\<close>.\<close>

definition payment_webhook :: "webhook_body \<Rightarrow> io \<Rightarrow> store \<Rightarrow> store \<times> response" where
  "payment_webhook ev env st =
     (if event ev = Some ''charge.success'' then
        (case data ev of
           None \<Rightarrow> (st, (500, Plain ''Error''))
         | Some d \<Rightarrow>
             (case metadata d of
                None \<Rightarrow> (st, (500, Plain ''Error''))
              | Some md \<Rightarrow>
                  let st1 =
                        (if update_ok env then
                           st\<lparr>users :=
                                map (\<lambda>u. if Some (uid u) = userId md
                                          then u\<lparr>is_subscribed := True\<rparr> else u)
                                  (users st)\<rparr>
                         else st)
                  in
                  (case plan md of
                     None \<Rightarrow> (st1, (500, Plain ''Error''))
                   | Some pl \<Rightarrow>
                       let endDate =
                             (if includes_str pl ''yearly''
                              then setFullYear (time_zone env) (clock_end env)
                                     (getFullYear (time_zone env) (clock_end env) + 1)
                              else setMonth (time_zone env) (clock_end env)
                                     (getMonth (time_zone env) (clock_end env) + 1));
                           row = \<lparr>user_id = userId md, sub_plan = pl,
                                  sub_amount = amount d, sub_reference = reference d,
                                  discount_code = discountCode md,
                                  sub_status = ''active'',
                                  start_date = clock_start env, end_date = endDate\<rparr>;
                           st2 =
                             (if insert_ok env then
                                st1\<lparr>subscriptions := subscriptions st1 @ [row]\<rparr>
                              else st1)
                       in (st2, (200, Plain ''OK'')))))
      else (st, (200, Plain ''OK'')))"

section \<open>The plan list\<close>

text \<open>\<^verbatim>\<open>PLANS\<close>, without the feature lists; \<open>plan_name\<close> is the tier.\<close>

record plan_info =
  plan_id :: string
  plan_name :: string
  interval :: string
  price :: int

definition PLANS :: "plan_info list" where
  "PLANS =
     [\<lparr>plan_id = ''standard_monthly'', plan_name = ''Standard'', interval = ''monthly'', price = 16000\<rparr>,
      \<lparr>plan_id = ''standard_yearly'', plan_name = ''Standard'', interval = ''yearly'', price = 172800\<rparr>,
      \<lparr>plan_id = ''pro_monthly'', plan_name = ''Pro'', interval = ''monthly'', price = 22000\<rparr>,
      \<lparr>plan_id = ''pro_yearly'', plan_name = ''Pro'', interval = ''yearly'', price = 237600\<rparr>]"

section \<open>What a successful reconciliation writes\<close>

text \<open>
  The two handlers repeat the same steps once the charge is known to have succeeded. They
  are written out once here, to state the theorems with; \<open>verify_success\<close> and
  \<open>webhook_success\<close> below show that each handler does exactly this.
\<close>

definition mark_subscribed :: "string option \<Rightarrow> user list \<Rightarrow> user list" where
  "mark_subscribed target us =
     map (\<lambda>u. if Some (uid u) = target then u\<lparr>is_subscribed := True\<rparr> else u) us"

definition next_end :: "zone \<Rightarrow> string \<Rightarrow> jsdate \<Rightarrow> jsdate" where
  "next_end z pl t =
     (if includes_str pl ''yearly'' then setFullYear z t (getFullYear z t + 1)
      else setMonth z t (getMonth z t + 1))"

definition activation :: "string option \<Rightarrow> charge \<Rightarrow> intent \<Rightarrow> string \<Rightarrow> io \<Rightarrow> store \<Rightarrow> store" where
  "activation r d md pl env st =
     \<lparr>users = (if update_ok env then mark_subscribed (userId md) (users st) else users st),
      subscriptions =
        (if insert_ok env then
           subscriptions st @
             [\<lparr>user_id = userId md, sub_plan = pl, sub_amount = amount d, sub_reference = r,
               discount_code = discountCode md, sub_status = ''active'',
               start_date = clock_start env,
               end_date = next_end (time_zone env) pl (clock_end env)\<rparr>]
         else subscriptions st)\<rparr>"

text \<open>The two ways into the reconciliation, each handed the gateway's record of a charge.\<close>

datatype entry = ViaVerify claims string | ViaWebhook

fun reconcile :: "entry \<Rightarrow> charge \<Rightarrow> io \<Rightarrow> store \<Rightarrow> store \<times> response" where
  "reconcile (ViaVerify c ref) d env st =
     payment_verify (Authenticated c) ref (Returned (Some \<lparr>verify_payload = Some d\<rparr>)) env st"
| "reconcile ViaWebhook d env st =
     payment_webhook \<lparr>event = Some ''charge.success'', data = Some d\<rparr> env st"

fun entry_reference :: "entry \<Rightarrow> charge \<Rightarrow> string option" where
  "entry_reference (ViaVerify c ref) d = Some ref"
| "entry_reference ViaWebhook d = reference d"

text \<open>The rows stored under a gateway reference.\<close>

definition rows_for :: "string \<Rightarrow> store \<Rightarrow> subscription list" where
  "rows_for r st = filter (\<lambda>s. sub_reference s = Some r) (subscriptions st)"

section \<open>One calendar year, one calendar month\<close>

text \<open>
  The sums in closed form, for a date that exists: the same day of the next year or month,
  and a day that the target month lacks counted on into the month after it.
\<close>

definition valid_date :: "jsdate \<Rightarrow> bool" where
  "valid_date t = (month t < 12 \<and> 1 \<le> day t \<and> day t \<le> days_in_month (year t) (month t))"

definition plus_one_year :: "jsdate \<Rightarrow> jsdate" where
  "plus_one_year t =
     (if month t = 1 \<and> day t = 29 then t\<lparr>year := year t + 1, month := 2, day := 1\<rparr>
      else t\<lparr>year := year t + 1\<rparr>)"

definition plus_one_month :: "jsdate \<Rightarrow> jsdate" where
  "plus_one_month t =
     (let y = (if month t = 11 then year t + 1 else year t);
          m = (if month t = 11 then 0 else month t + 1);
          n = days_in_month y m
      in if day t \<le> n then t\<lparr>year := y, month := m, day := day t\<rparr>
         else t\<lparr>year := y, month := m + 1, day := day t - n\<rparr>)"

section \<open>Sample data\<close>

text \<open>
  Two users, a charge of the first for the monthly standard plan with a standard discount
  code, and a run in which the store carries out both writes, the process runs in UTC and
  the clock moves on by a millisecond between its two readings.
\<close>

definition utc_zone :: zone where
  "utc_zone = \<lparr>LocalTime = (\<lambda>t. t), UTC = (\<lambda>t. t)\<rparr>"

definition ada :: user where
  "ada = \<lparr>uid = ''u1'', full_name = ''Ada Obi'', email = ''ada@example.com'',
          password = ''hash-1'', is_subscribed = False\<rparr>"

definition bayo :: user where
  "bayo = \<lparr>uid = ''u2'', full_name = ''Bayo Ade'', email = ''bayo@example.com'',
           password = ''hash-2'', is_subscribed = False\<rparr>"

definition shop :: store where
  "shop = \<lparr>users = [ada, bayo], subscriptions = []\<rparr>"

definition as_ada :: claims where
  "as_ada = \<lparr>caller_id = ''u1'', caller_email = ''ada@example.com''\<rparr>"

definition as_bayo :: claims where
  "as_bayo = \<lparr>caller_id = ''u2'', caller_email = ''bayo@example.com''\<rparr>"

definition order :: intent where
  "order = \<lparr>userId = Some ''u1'', fullName = Some ''Ada Obi'', plan = Some ''standard_monthly'',
            discountCode = Some ''DX9Q-7M2A-K8P4'', originalAmount = Num 1600000,
            finalAmount = Num 700000\<rparr>"

definition paid :: charge where
  "paid = \<lparr>status = ''success'', amount = Num 700000, reference = Some ''ref_1'',
           metadata = Some order\<rparr>"

definition tick :: io where
  "tick = \<lparr>update_ok = True, insert_ok = True, time_zone = utc_zone,
           clock_end = \<lparr>year = 2024, month = 0, day = 15, msec = 36000000\<rparr>,
           clock_start = \<lparr>year = 2024, month = 0, day = 15, msec = 36000001\<rparr>\<rparr>"

section \<open>Pricing: the catalog cases\<close>

lemma round_700000: "Math_round (times_10_8 700000) = 7560000"
  by code_simp

lemma round_1100000: "Math_round (times_10_8 1100000) = 11880000"
  by code_simp

lemma catalog_lookup:
  "DISCOUNT_CODES c = Some d \<Longrightarrow>
     (standardOnly d \<and> \<not> proOnly d \<and> standard d = Num 700000) \<or>
     (proOnly d \<and> \<not> standardOnly d \<and> pro d = Num 1100000)"
  by (auto simp: DISCOUNT_CODES_def split: if_splits)

lemma catalog_code_nonempty: "DISCOUNT_CODES (toUpperCase dc) = Some d \<Longrightarrow> dc \<noteq> []"
  by (auto simp: DISCOUNT_CODES_def toUpperCase_def)

lemma plan_key:
  assumes "p \<in> set PLANS" "pl = plan_id p \<or> pl = plan_id p @ ''_discounted''"
  shows "replace pl ''_discounted'' [] = plan_id p"
  using assms by (auto simp: PLANS_def)

lemma plan_price_truthy: "p \<in> set PLANS \<Longrightarrow> truthy (BASE_PRICES (plan_id p))"
  by (auto simp: PLANS_def BASE_PRICES_def)

lemma apply_matching:
  assumes "p \<in> set PLANS" "pl = plan_id p \<or> pl = plan_id p @ ''_discounted''"
    and "DISCOUNT_CODES (toUpperCase dc) = Some d"
    and "(plan_name p = ''Standard'' \<and> standardOnly d) \<or> (plan_name p = ''Pro'' \<and> proOnly d)"
  shows "\<exists>ov. (if standardOnly d then standard d else pro d) = Num ov \<and>
           apply_discount pl (Some dc) base =
             (Num (if interval p = ''yearly'' then round (real_of_int ov * 10.8) else ov),
              Some (toUpperCase dc))"
  using catalog_lookup[OF assms(3)] assms catalog_code_nonempty[OF assms(3)]
  by (auto simp: PLANS_def apply_discount_def round_700000 round_1100000)

lemma apply_mismatch:
  assumes "p \<in> set PLANS" "pl = plan_id p \<or> pl = plan_id p @ ''_discounted''"
    and "DISCOUNT_CODES (toUpperCase dc) = Some d"
    and "\<not> ((plan_name p = ''Standard'' \<and> standardOnly d) \<or> (plan_name p = ''Pro'' \<and> proOnly d))"
  shows "apply_discount pl (Some dc) base = (base, None)"
  using catalog_lookup[OF assms(3)] assms catalog_code_nonempty[OF assms(3)]
  by (auto simp: PLANS_def apply_discount_def)

lemma initialize_sends:
  assumes "single (filter (\<lambda>u. uid u = caller_id c) (users st)) = Some u"
    and "truthy (BASE_PRICES (replace pl ''_discounted'' []))"
  shows "fst (snd (payment_initialize F (Authenticated c)
                    \<lparr>req_plan = Some pl, req_discountCode = dc\<rparr> reply st)) =
         Some \<lparr>gw_email = email u,
               gw_amount = fst (apply_discount pl dc (BASE_PRICES (replace pl ''_discounted'' []))),
               gw_currency = ''NGN'',
               gw_metadata =
                 \<lparr>userId = Some (uid u), fullName = Some (full_name u), plan = Some pl,
                  discountCode = snd (apply_discount pl dc (BASE_PRICES (replace pl ''_discounted'' []))),
                  originalAmount = BASE_PRICES (replace pl ''_discounted'' []),
                  finalAmount = fst (apply_discount pl dc (BASE_PRICES (replace pl ''_discounted'' [])))\<rparr>,
               gw_callback_url = F @ ''/dashboard.html''\<rparr>"
  using assms
  by (simp add: payment_initialize_def Let_def split: prod.splits http.splits option.splits)

lemma unknown_plan_rejected:
  assumes "single (filter (\<lambda>u. uid u = caller_id c) (users st)) = Some u"
    and "BASE_PRICES (replace pl ''_discounted'' []) = Undefined"
  shows "payment_initialize F (Authenticated c) \<lparr>req_plan = Some pl, req_discountCode = dc\<rparr> reply st =
           (st, None, (400, Message ''Invalid plan''))"
  using assms by (simp add: payment_initialize_def)

section \<open>Calendar arithmetic of the end date\<close>

lemma roll_over_fits: "d \<le> days_in_month y m \<Longrightarrow> roll_over y m d = (y, m, d)"
  by (subst roll_over.simps) simp

lemma roll_over_step:
  "days_in_month y m < d \<Longrightarrow> m \<noteq> 11 \<Longrightarrow>
     roll_over y m d = roll_over y (m + 1) (d - days_in_month y m)"
  by (subst roll_over.simps) simp

lemma leap_next: "leap_year y \<Longrightarrow> \<not> leap_year (y + 1)"
  unfolding leap_year_def by presburger

lemma MakeDay_next_year:
  assumes "valid_date t"
  shows "MakeDay (year t + 1) (month t) (day t) =
           (year (plus_one_year t), month (plus_one_year t), day (plus_one_year t))"
proof (cases "month t = 1 \<and> day t = 29")
  case True
  with assms have lp: "leap_year (year t)"
    by (auto simp: valid_date_def days_in_month_def split: if_splits)
  then have nl: "\<not> leap_year (year t + 1)" by (rule leap_next)
  have a: "roll_over (year t + 1) 2 1 = (year t + 1, 2, 1)"
    by (rule roll_over_fits) (simp add: days_in_month_def)
  have b: "roll_over (year t + 1) 1 29 =
           roll_over (year t + 1) (1 + 1) (29 - days_in_month (year t + 1) 1)"
    by (rule roll_over_step) (use nl in \<open>simp_all add: days_in_month_def\<close>)
  have c: "(1::nat) + 1 = 2" "29 - days_in_month (year t + 1) 1 = 1"
    using nl by (simp_all add: days_in_month_def)
  have "roll_over (year t + 1) 1 29 = (year t + 1, 2, 1)"
    using a b unfolding c by simp
  then show ?thesis
    using True by (simp add: MakeDay_def plus_one_year_def)
next
  case False
  with assms have "day t \<le> days_in_month (year t + 1) (month t)"
    by (auto simp: valid_date_def days_in_month_def split: if_splits)
  then have "roll_over (year t + 1) (month t) (day t) = (year t + 1, month t, day t)"
    by (rule roll_over_fits)
  moreover have "month t div 12 = 0" "month t mod 12 = month t"
    using assms by (simp_all add: valid_date_def)
  ultimately show ?thesis
    using False by (simp add: MakeDay_def plus_one_year_def)
qed

lemma MakeDay_next_month:
  assumes "valid_date t"
  shows "MakeDay (year t) (month t + 1) (day t) =
           (year (plus_one_month t), month (plus_one_month t), day (plus_one_month t))"
proof -
  define y where "y = (if month t = 11 then year t + 1 else year t)"
  define m where "m = (if month t = 11 then 0 else month t + 1)"
  have mk: "MakeDay (year t) (month t + 1) (day t) = roll_over y m (day t)"
    using assms by (auto simp: MakeDay_def y_def m_def valid_date_def)
  have d31: "day t \<le> 31"
    using assms by (auto simp: valid_date_def days_in_month_def split: if_splits)
  show ?thesis
  proof (cases "day t \<le> days_in_month y m")
    case True
    then have "roll_over y m (day t) = (y, m, day t)" by (rule roll_over_fits)
    with True mk show ?thesis
      by (simp add: plus_one_month_def y_def m_def Let_def)
  next
    case False
    then have m11: "m \<noteq> 11" using d31 by (auto simp: days_in_month_def split: if_splits)
    have "day t - days_in_month y m \<le> days_in_month y (m + 1)"
      using d31 by (auto simp: days_in_month_def split: if_splits)
    then have "roll_over y (m + 1) (day t - days_in_month y m) =
               (y, m + 1, day t - days_in_month y m)"
      by (rule roll_over_fits)
    with False m11 have "roll_over y m (day t) = (y, m + 1, day t - days_in_month y m)"
      by (simp add: roll_over_step)
    with False mk show ?thesis
      by (simp add: plus_one_month_def y_def m_def Let_def)
  qed
qed

lemma plus_one_year_fields:
  "t\<lparr>year := year (plus_one_year t), month := month (plus_one_year t),
     day := day (plus_one_year t)\<rparr> = plus_one_year t"
  by (simp add: plus_one_year_def)

lemma plus_one_month_fields:
  "t\<lparr>year := year (plus_one_month t), month := month (plus_one_month t),
     day := day (plus_one_month t)\<rparr> = plus_one_month t"
  by (simp add: plus_one_month_def Let_def)

text \<open>
  The setters add on the local fields: the end date is the local year or month moved on
  by one, taken back to UTC.
\<close>

lemma setFullYear_next:
  assumes "valid_date (LocalTime z t)"
  shows "setFullYear z t (getFullYear z t + 1) = UTC z (plus_one_year (LocalTime z t))"
  unfolding setFullYear_def getFullYear_def Let_def MakeDay_next_year[OF assms] prod.case
    plus_one_year_fields ..

lemma setMonth_next:
  assumes "valid_date (LocalTime z t)"
  shows "setMonth z t (getMonth z t + 1) = UTC z (plus_one_month (LocalTime z t))"
  unfolding setMonth_def getMonth_def Let_def MakeDay_next_month[OF assms] prod.case
    plus_one_month_fields ..

lemma next_end_calendar:
  assumes "valid_date (LocalTime z t)"
  shows "next_end z pl t =
           UTC z (if includes_str pl ''yearly'' then plus_one_year (LocalTime z t)
                  else plus_one_month (LocalTime z t))"
  unfolding next_end_def setFullYear_next[OF assms] setMonth_next[OF assms]
  by simp

section \<open>The two handlers on a successful charge\<close>

lemma verify_success:
  assumes "verify_payload b = Some d" "status d = ''success''" "metadata d = Some md"
    "plan md = Some pl"
  shows "payment_verify (Authenticated c) ref (Returned (Some b)) env st =
           (activation (Some ref) d md pl env st,
            (200, Verified pl (next_end (time_zone env) pl (clock_end env))))"
  using assms
  by (simp add: payment_verify_def activation_def mark_subscribed_def next_end_def Let_def)

lemma webhook_success:
  assumes "event ev = Some ''charge.success''" "data ev = Some d" "metadata d = Some md"
    "plan md = Some pl"
  shows "payment_webhook ev env st =
           (activation (reference d) d md pl env st, (200, Plain ''OK''))"
  using assms
  by (simp add: payment_webhook_def activation_def mark_subscribed_def next_end_def Let_def)

lemma reconcile_success:
  assumes "status d = ''success''" "metadata d = Some md" "plan md = Some pl"
  shows "reconcile e d env st =
           (activation (entry_reference e d) d md pl env st,
            (200, case e of ViaVerify c ref \<Rightarrow> Verified pl (next_end (time_zone env) pl (clock_end env))
                  | ViaWebhook \<Rightarrow> Plain ''OK''))"
proof (cases e)
  case (ViaVerify c ref)
  have "payment_verify (Authenticated c) ref (Returned (Some \<lparr>verify_payload = Some d\<rparr>)) env st =
          (activation (Some ref) d md pl env st, (200, Verified pl (next_end (time_zone env) pl (clock_end env))))"
    by (rule verify_success) (simp_all add: assms)
  then show ?thesis unfolding ViaVerify by simp
next
  case ViaWebhook
  have "payment_webhook \<lparr>event = Some ''charge.success'', data = Some d\<rparr> env st =
          (activation (reference d) d md pl env st, (200, Plain ''OK''))"
    by (rule webhook_success) (simp_all add: assms)
  then show ?thesis unfolding ViaWebhook by simp
qed

lemma mark_subscribed_twice:
  "mark_subscribed target (mark_subscribed target us) = mark_subscribed target us"
  by (induction us) (simp_all add: mark_subscribed_def)

lemma mark_subscribed_flag:
  assumes "u \<in> set (mark_subscribed target us)" and "Some (uid u) = target"
  shows "is_subscribed u"
proof -
  from assms(1)
  have "u \<in> (\<lambda>w. if Some (uid w) = target then w\<lparr>is_subscribed := True\<rparr> else w) ` set us"
    unfolding mark_subscribed_def set_map .
  then obtain v
    where u: "u = (if Some (uid v) = target then v\<lparr>is_subscribed := True\<rparr> else v)"
      and v: "v \<in> set us"
    by (rule imageE)
  show ?thesis
  proof (cases "Some (uid v) = target")
    case True
    have "u = v\<lparr>is_subscribed := True\<rparr>"
      using u unfolding if_P[OF True] .
    then show ?thesis by simp
  next
    case False
    have uv: "u = v"
      using u unfolding if_not_P[OF False] .
    have "Some (uid v) = target"
      using assms(2) unfolding uv .
    with False show ?thesis by blast
  qed
qed


lemma sample_charge:
  "status paid = ''success''" "metadata paid = Some order"
  "plan order = Some ''standard_monthly''"
  by (simp_all add: paid_def order_def)

lemma sample_io: "update_ok tick" "insert_ok tick"
  by (simp_all add: tick_def)


lemma sample_caller:
  "single (filter (\<lambda>u. uid u = caller_id as_ada) (users shop)) = Some ada"
  by (simp add: shop_def ada_def bayo_def as_ada_def)

section \<open>Reconciling the same reference twice\<close>

text \<open>
  Claim C1, as the code has it. Neither handler looks for an existing row before it
  inserts, so when the same gateway reference is reconciled twice (success both times, by
  the verify route, the webhook, or one of each) and the store carries out the writes, the
  reference ends with two more subscription rows than before, not one. The part about the
  user holds: after the first run every user with the \<^verbatim>\<open>userId\<close> of the metadata is
  subscribed, and the second run leaves the users as they are.
\<close>

theorem reconcile_twice_two_rows:
  assumes "status d = ''success''" "metadata d = Some md" "plan md = Some pl"
    and "entry_reference e1 d = Some r" "entry_reference e2 d = Some r"
    and "update_ok env1" "insert_ok env1" "update_ok env2" "insert_ok env2"
    and "st1 = fst (reconcile e1 d env1 st)" "st2 = fst (reconcile e2 d env2 st1)"
  shows "length (rows_for r st2) = length (rows_for r st) + 2 \<and>
         users st1 = mark_subscribed (userId md) (users st) \<and>
         (\<forall>u \<in> set (users st1). Some (uid u) = userId md \<longrightarrow> is_subscribed u) \<and>
         users st2 = users st1"
proof -
  have s1: "st1 = activation (Some r) d md pl env1 st"
    unfolding assms(10) reconcile_success[OF assms(1-3)] assms(4) by simp
  have s2: "st2 = activation (Some r) d md pl env2 st1"
    unfolding assms(11) reconcile_success[OF assms(1-3)] assms(5) by simp
  have u1: "users st1 = mark_subscribed (userId md) (users st)"
    unfolding s1 activation_def using assms(6) by simp
  have u2: "users st2 = mark_subscribed (userId md) (users st1)"
    unfolding s2 activation_def using assms(8) by simp
  have u3: "users st2 = users st1"
    unfolding u2 u1 by (rule mark_subscribed_twice)
  have r1: "rows_for r st1 = rows_for r st @ [last (subscriptions st1)]"
    unfolding s1 activation_def rows_for_def using assms(7) by simp
  have r2: "rows_for r st2 = rows_for r st1 @ [last (subscriptions st2)]"
    unfolding s2 activation_def rows_for_def using assms(9) by simp
  have rows: "length (rows_for r st2) = length (rows_for r st) + 2"
    unfolding r2 r1 by simp
  have flag: "\<forall>u \<in> set (users st1). Some (uid u) = userId md \<longrightarrow> is_subscribed u"
    unfolding u1 by (blast intro: mark_subscribed_flag)
  from rows u1 flag u3 show ?thesis by blast
qed

text \<open>
  The sample charge, verified by one user and then delivered by the webhook: two rows
  for \<^verbatim>\<open>ref_1\<close>, and the payer (not the caller) is the one subscribed.
\<close>

theorem reconcile_twice_two_rows_witness:
  "length (rows_for ''ref_1''
     (fst (reconcile ViaWebhook paid tick
        (fst (reconcile (ViaVerify as_bayo ''ref_1'') paid tick shop))))) = 2 \<and>
   users (fst (reconcile (ViaVerify as_bayo ''ref_1'') paid tick shop)) =
     [ada\<lparr>is_subscribed := True\<rparr>, bayo]"
proof -
  have b: "entry_reference (ViaVerify as_bayo ''ref_1'') paid = Some ''ref_1''"
    "entry_reference ViaWebhook paid = Some ''ref_1''"
    by (simp_all add: paid_def)
  have d: "length (rows_for ''ref_1'' shop) = 0"
    by (simp add: rows_for_def shop_def)
  have e: "mark_subscribed (userId order) (users shop) = [ada\<lparr>is_subscribed := True\<rparr>, bayo]"
    by (simp add: mark_subscribed_def order_def shop_def ada_def bayo_def)
  note t = reconcile_twice_two_rows[OF sample_charge b sample_io sample_io refl refl, of shop]
  from t have "length (rows_for ''ref_1''
     (fst (reconcile ViaWebhook paid tick
        (fst (reconcile (ViaVerify as_bayo ''ref_1'') paid tick shop))))) =
     length (rows_for ''ref_1'' shop) + 2" by (rule conjunct1)
  moreover from t have "users (fst (reconcile (ViaVerify as_bayo ''ref_1'') paid tick shop)) =
     mark_subscribed (userId order) (users shop)" by blast
  ultimately show ?thesis unfolding d e by simp
qed

text \<open>
  Against C1 as stated (exactly one row): the verify route followed by the webhook on
  an empty \<^verbatim>\<open>subscriptions\<close> table leaves two rows for the one reference.
\<close>

theorem reconcile_twice_counterexample:
  "length (rows_for ''ref_1''
     (fst (payment_webhook \<lparr>event = Some ''charge.success'', data = Some paid\<rparr> tick
        (fst (payment_verify (Authenticated as_ada) ''ref_1''
                (Returned (Some \<lparr>verify_payload = Some paid\<rparr>)) tick shop))))) = 2"
proof -
  have a: "reference paid = Some ''ref_1''"
    by (simp add: paid_def)
  have v: "payment_verify (Authenticated as_ada) ''ref_1''
             (Returned (Some \<lparr>verify_payload = Some paid\<rparr>)) tick shop =
           (activation (Some ''ref_1'') paid order ''standard_monthly'' tick shop,
            (200, Verified ''standard_monthly'' (next_end (time_zone tick) ''standard_monthly'' (clock_end tick))))"
    by (rule verify_success) (simp_all add: sample_charge)
  have w: "payment_webhook \<lparr>event = Some ''charge.success'', data = Some paid\<rparr> tick st =
           (activation (reference paid) paid order ''standard_monthly'' tick st, (200, Plain ''OK''))"
    for st
    by (rule webhook_success) (simp_all add: sample_charge)
  show ?thesis
    unfolding v w a fst_conv
    by (simp add: activation_def rows_for_def sample_io shop_def)
qed

section \<open>Where the fields of the new row come from\<close>

text \<open>
  Claim C2, as the code has it. On a successful reconciliation by either route the new
  row takes its plan and its discount code from the metadata of the charge, and its amount
  from the \<^verbatim>\<open>amount\<close> that the gateway reports for the charge (\<^verbatim>\<open>data.amount\<close>), not from
  the \<^verbatim>\<open>finalAmount\<close> of the metadata. None of the three is computed from the price or
  discount tables.
\<close>

theorem row_copies_charge:
  assumes "status d = ''success''" "metadata d = Some md" "plan md = Some pl"
    and "insert_ok env"
  shows "\<exists>row. subscriptions (fst (reconcile e d env st)) = subscriptions st @ [row] \<and>
           sub_plan row = pl \<and> discount_code row = discountCode md \<and>
           sub_amount row = amount d"
  unfolding reconcile_success[OF assms(1-3)] fst_conv activation_def
  using assms(4) by simp

text \<open>The sample charge through the webhook.\<close>

theorem row_copies_charge_witness:
  "\<exists>row. subscriptions (fst (reconcile ViaWebhook paid tick shop)) = subscriptions shop @ [row] \<and>
     sub_plan row = ''standard_monthly'' \<and> discount_code row = Some ''DX9Q-7M2A-K8P4'' \<and>
     sub_amount row = Num 700000"
  using row_copies_charge[OF sample_charge sample_io(2), of ViaWebhook shop]
  by (simp add: paid_def order_def)

text \<open>
  Against C2 as stated (the amount is that of the intent): a charge reported with amount
  100 whose metadata says \<^verbatim>\<open>finalAmount\<close> 700000 is stored with amount 100, by both routes.
\<close>

theorem row_amount_counterexample:
  "map sub_amount (subscriptions (fst (payment_webhook
       \<lparr>event = Some ''charge.success'', data = Some (paid\<lparr>amount := Num 100\<rparr>)\<rparr> tick shop))) =
     [Num 100] \<and>
   map sub_amount (subscriptions (fst (payment_verify (Authenticated as_ada) ''ref_1''
       (Returned (Some \<lparr>verify_payload = Some (paid\<lparr>amount := Num 100\<rparr>)\<rparr>)) tick shop))) =
     [Num 100] \<and>
   metadata (paid\<lparr>amount := Num 100\<rparr>) = Some order \<and> finalAmount order = Num 700000"
proof -
  let ?d = "paid\<lparr>amount := Num 100\<rparr>"
  have a: "status ?d = ''success''" "metadata ?d = Some order"
    "plan order = Some ''standard_monthly''" "amount ?d = Num 100"
    by (simp_all add: paid_def order_def)
  have v: "payment_verify (Authenticated as_ada) ''ref_1''
             (Returned (Some \<lparr>verify_payload = Some ?d\<rparr>)) tick shop =
           (activation (Some ''ref_1'') ?d order ''standard_monthly'' tick shop,
            (200, Verified ''standard_monthly'' (next_end (time_zone tick) ''standard_monthly'' (clock_end tick))))"
    by (rule verify_success) (simp_all add: a)
  have w: "payment_webhook \<lparr>event = Some ''charge.success'', data = Some ?d\<rparr> tick shop =
           (activation (reference ?d) ?d order ''standard_monthly'' tick shop, (200, Plain ''OK''))"
    by (rule webhook_success) (simp_all add: a)
  have s: "subscriptions shop = []" by (simp add: shop_def)
  have f: "finalAmount order = Num 700000" by (simp add: order_def)
  show ?thesis
    unfolding v w fst_conv activation_def
    by (simp add: sample_io a s f)
qed

section \<open>What the webhook answers\<close>

text \<open>
  Claim C3, as the code has it. The webhook answers 200 \<^verbatim>\<open>OK\<close> whenever the event is not
  \<^verbatim>\<open>charge.success\<close>, or the payload has \<^verbatim>\<open>data\<close>, \<^verbatim>\<open>data.metadata\<close> and a
  \<^verbatim>\<open>metadata.plan\<close>; it does so whatever becomes of the update of the user and of the
  insert, also when the store carries out neither and nothing is written. (A
  \<^verbatim>\<open>charge.success\<close> payload that lacks one of the three makes the handler throw, and its
  \<^verbatim>\<open>catch\<close> block answers 500.)
\<close>

theorem webhook_acknowledges:
  assumes "event ev \<noteq> Some ''charge.success'' \<or>
           (\<exists>d md pl. data ev = Some d \<and> metadata d = Some md \<and> plan md = Some pl)"
  shows "snd (payment_webhook ev env st) = (200, Plain ''OK'') \<and>
         (\<not> update_ok env \<and> \<not> insert_ok env \<longrightarrow> fst (payment_webhook ev env st) = st)"
proof (cases "event ev = Some ''charge.success''")
  case False
  then show ?thesis by (simp add: payment_webhook_def)
next
  case True
  with assms obtain d md pl
    where h: "data ev = Some d" "metadata d = Some md" "plan md = Some pl"
    by blast
  show ?thesis
    unfolding webhook_success[OF True h] by (simp add: activation_def)
qed

text \<open>The sample charge with a store that carries out neither write.\<close>

theorem webhook_acknowledges_witness:
  "payment_webhook \<lparr>event = Some ''charge.success'', data = Some paid\<rparr>
     (tick\<lparr>update_ok := False, insert_ok := False\<rparr>) shop = (shop, (200, Plain ''OK''))"
proof -
  let ?ev = "\<lparr>event = Some ''charge.success'', data = Some paid\<rparr>"
  let ?env = "tick\<lparr>update_ok := False, insert_ok := False\<rparr>"
  have "event ?ev \<noteq> Some ''charge.success'' \<or>
        (\<exists>d md pl. data ?ev = Some d \<and> metadata d = Some md \<and> plan md = Some pl)"
    by (simp add: sample_charge)
  from webhook_acknowledges[OF this, of ?env shop]
  have "snd (payment_webhook ?ev ?env shop) = (200, Plain ''OK'')"
    and "fst (payment_webhook ?ev ?env shop) = shop"
    by simp_all
  then show ?thesis by (metis prod.collapse)
qed

text \<open>
  Against C3 as stated (every request is acknowledged): a \<^verbatim>\<open>charge.success\<close> event whose
  metadata has no \<^verbatim>\<open>plan\<close> gets the user marked as subscribed, no row inserted, and the
  answer 500 \<^verbatim>\<open>Error\<close>.
\<close>

theorem webhook_reports_error_counterexample:
  "payment_webhook
     \<lparr>event = Some ''charge.success'',
      data = Some (paid\<lparr>metadata := Some (order\<lparr>plan := None\<rparr>)\<rparr>)\<rparr> tick shop =
   (shop\<lparr>users := [ada\<lparr>is_subscribed := True\<rparr>, bayo]\<rparr>, (500, Plain ''Error''))"
  by (simp add: payment_webhook_def paid_def order_def tick_def shop_def ada_def bayo_def)

section \<open>The discounted amount\<close>

text \<open>
  Claim C4. For a plan of \<^verbatim>\<open>PLANS\<close> (its id, or its id followed by \<^verbatim>\<open>_discounted\<close>) and a
  discount code of the catalog restricted to the tier of the plan, the amount sent to the
  gateway, which is also the \<^verbatim>\<open>finalAmount\<close> of the metadata, is the override of the code
  for a monthly plan and \<open>round (override \<times> 10.8)\<close> for a yearly one. The left-hand side is
  the double arithmetic of the handler, the right-hand side the exact product.
\<close>

theorem discount_matching_tier:
  assumes "p \<in> set PLANS" "pl = plan_id p \<or> pl = plan_id p @ ''_discounted''"
    and "DISCOUNT_CODES (toUpperCase dc) = Some d"
    and "(plan_name p = ''Standard'' \<and> standardOnly d) \<or> (plan_name p = ''Pro'' \<and> proOnly d)"
    and "single (filter (\<lambda>u. uid u = caller_id c) (users st)) = Some u"
  shows "\<exists>sent ov.
           fst (snd (payment_initialize F (Authenticated c)
                      \<lparr>req_plan = Some pl, req_discountCode = Some dc\<rparr> reply st)) = Some sent \<and>
           (if standardOnly d then standard d else pro d) = Num ov \<and>
           gw_amount sent =
             Num (if interval p = ''yearly'' then round (real_of_int ov * 10.8) else ov) \<and>
           finalAmount (gw_metadata sent) = gw_amount sent \<and>
           originalAmount (gw_metadata sent) = BASE_PRICES (plan_id p) \<and>
           discountCode (gw_metadata sent) = Some (toUpperCase dc)"
proof -
  have key: "replace pl ''_discounted'' [] = plan_id p"
    using assms(1,2) by (rule plan_key)
  have ok: "truthy (BASE_PRICES (replace pl ''_discounted'' []))"
    using plan_price_truthy[OF assms(1)] key by simp
  obtain ov where ov: "(if standardOnly d then standard d else pro d) = Num ov"
    and ap: "apply_discount pl (Some dc) (BASE_PRICES (plan_id p)) =
             (Num (if interval p = ''yearly'' then round (real_of_int ov * 10.8) else ov),
              Some (toUpperCase dc))"
    using apply_matching[OF assms(1-4)] by blast
  show ?thesis
    using initialize_sends[OF assms(5) ok, of F "Some dc" reply] ov ap key by simp
qed

text \<open>
  The example of the claim: the standard code, typed in lower case, on the monthly
  standard plan (base price 1600000) gives 700000, and on the yearly one 7560000.
\<close>

theorem discount_matching_tier_witness:
  "(\<exists>sent. fst (snd (payment_initialize ''https://mzone.example'' (Authenticated as_ada)
                \<lparr>req_plan = Some ''standard_monthly'', req_discountCode = Some ''dx9q-7m2a-k8p4''\<rparr>
                Threw shop)) = Some sent \<and>
           gw_amount sent = Num 700000 \<and> originalAmount (gw_metadata sent) = Num 1600000) \<and>
   (\<exists>sent. fst (snd (payment_initialize ''https://mzone.example'' (Authenticated as_ada)
                \<lparr>req_plan = Some ''standard_yearly_discounted'',
                 req_discountCode = Some ''dx9q-7m2a-k8p4''\<rparr>
                Threw shop)) = Some sent \<and>
           gw_amount sent = Num 7560000)"
proof -
  let ?d = "\<lparr>name = ''DX9Q-7M2A-K8P4'', standard = Num 700000, pro = Undefined,
             standardOnly = True, proOnly = False\<rparr>"
  let ?m = "\<lparr>plan_id = ''standard_monthly'', plan_name = ''Standard'',
             interval = ''monthly'', price = 16000\<rparr>"
  let ?y = "\<lparr>plan_id = ''standard_yearly'', plan_name = ''Standard'',
             interval = ''yearly'', price = 172800\<rparr>"
  have code: "DISCOUNT_CODES (toUpperCase ''dx9q-7m2a-k8p4'') = Some ?d"
    by (simp add: DISCOUNT_CODES_def toUpperCase_def upper_char_def)
  have tier_m: "(plan_name ?m = ''Standard'' \<and> standardOnly ?d) \<or> (plan_name ?m = ''Pro'' \<and> proOnly ?d)"
    by simp
  have tier_y: "(plan_name ?y = ''Standard'' \<and> standardOnly ?d) \<or> (plan_name ?y = ''Pro'' \<and> proOnly ?d)"
    by simp
  have pm: "?m \<in> set PLANS" and py: "?y \<in> set PLANS"
    by (simp_all add: PLANS_def)
  have fm: "''standard_monthly'' = plan_id ?m \<or> ''standard_monthly'' = plan_id ?m @ ''_discounted''"
    by simp
  have fy: "''standard_yearly_discounted'' = plan_id ?y \<or>
            ''standard_yearly_discounted'' = plan_id ?y @ ''_discounted''"
    by simp
  show ?thesis
    using discount_matching_tier[OF pm fm code tier_m sample_caller, of "''https://mzone.example''" Threw]
      discount_matching_tier[OF py fy code tier_y sample_caller, of "''https://mzone.example''" Threw]
    by (auto simp: BASE_PRICES_def)
qed

section \<open>The end date of a subscription\<close>

text \<open>
  What both routes store: \<^verbatim>\<open>start_date\<close> is the second reading of the clock, and
  \<^verbatim>\<open>end_date\<close> is the first reading moved on in the local calendar of the process, by one
  year when the plan of the metadata contains \<^verbatim>\<open>yearly\<close> and by one month otherwise, and
  taken back to UTC. The sum keeps the day of the month, and a day that the target month
  lacks runs on into the month after.
\<close>

lemma end_date_calendar:
  assumes "status d = ''success''" "metadata d = Some md" "plan md = Some pl"
    and "insert_ok env" "valid_date (LocalTime (time_zone env) (clock_end env))"
  shows "\<exists>row. subscriptions (fst (reconcile e d env st)) = subscriptions st @ [row] \<and>
           start_date row = clock_start env \<and>
           end_date row =
             UTC (time_zone env)
               (if includes_str pl ''yearly''
                then plus_one_year (LocalTime (time_zone env) (clock_end env))
                else plus_one_month (LocalTime (time_zone env) (clock_end env)))"
  unfolding reconcile_success[OF assms(1-3)] fst_conv activation_def
  using assms(4) next_end_calendar[OF assms(5), of pl] by simp

text \<open>In a process that runs in UTC, 29 February 2024 at 10:00 plus a year is 1 March 2025 at 10:00.\<close>

lemma leap_day_plus_one_year:
  "next_end utc_zone ''standard_yearly'' \<lparr>year = 2024, month = 1, day = 29, msec = 36000000\<rparr> =
     \<lparr>year = 2025, month = 2, day = 1, msec = 36000000\<rparr>"
proof -
  let ?t = "\<lparr>year = 2024, month = 1, day = 29, msec = 36000000\<rparr>"
  have l: "LocalTime utc_zone ?t = ?t" by (simp add: utc_zone_def)
  have v: "valid_date (LocalTime utc_zone ?t)"
    unfolding l by (simp add: valid_date_def days_in_month_def leap_year_def)
  show ?thesis
    unfolding next_end_calendar[OF v] l
    by (simp add: plus_one_year_def utc_zone_def)
qed

text \<open>
  Claim C5 at an input where the handler departs from it. The handler computes the end
  date from one reading of the clock (\<^verbatim>\<open>const endDate = new Date()\<close>) and stores as start
  date another, later one (\<^verbatim>\<open>start_date: new Date().toISOString()\<close>). With the two readings
  a millisecond apart, in a process that runs in UTC, a monthly row starts on 15 January
  2024 at 10:00:00.001 and ends on 15 February at 10:00:00.000, which is not its start
  date plus one calendar month.
\<close>

theorem end_date_two_clock_readings:
  "start_date (last (subscriptions (fst (payment_verify (Authenticated as_ada) ''ref_1''
        (Returned (Some \<lparr>verify_payload = Some paid\<rparr>)) tick shop)))) =
     \<lparr>year = 2024, month = 0, day = 15, msec = 36000001\<rparr> \<and>
   end_date (last (subscriptions (fst (payment_verify (Authenticated as_ada) ''ref_1''
        (Returned (Some \<lparr>verify_payload = Some paid\<rparr>)) tick shop)))) =
     \<lparr>year = 2024, month = 1, day = 15, msec = 36000000\<rparr> \<and>
   plus_one_month (start_date (last (subscriptions (fst (payment_verify (Authenticated as_ada)
        ''ref_1'' (Returned (Some \<lparr>verify_payload = Some paid\<rparr>)) tick shop))))) =
     \<lparr>year = 2024, month = 1, day = 15, msec = 36000001\<rparr>"
proof -
  have v: "payment_verify (Authenticated as_ada) ''ref_1''
             (Returned (Some \<lparr>verify_payload = Some paid\<rparr>)) tick shop =
           (activation (Some ''ref_1'') paid order ''standard_monthly'' tick shop,
            (200, Verified ''standard_monthly''
                    (next_end (time_zone tick) ''standard_monthly'' (clock_end tick))))"
    by (rule verify_success) (simp_all add: sample_charge)
  have l: "LocalTime (time_zone tick) (clock_end tick) = clock_end tick"
    by (simp add: tick_def utc_zone_def)
  have vd: "valid_date (LocalTime (time_zone tick) (clock_end tick))"
    unfolding l by (simp add: valid_date_def tick_def days_in_month_def)
  have e: "next_end (time_zone tick) ''standard_monthly'' (clock_end tick) =
           \<lparr>year = 2024, month = 1, day = 15, msec = 36000000\<rparr>"
    unfolding next_end_calendar[OF vd] l
    by (simp add: plus_one_month_def tick_def utc_zone_def days_in_month_def leap_year_def)
  have c: "clock_start tick = \<lparr>year = 2024, month = 0, day = 15, msec = 36000001\<rparr>"
    by (simp add: tick_def)
  have s: "plus_one_month \<lparr>year = 2024, month = 0, day = 15, msec = 36000001\<rparr> =
           \<lparr>year = 2024, month = 1, day = 15, msec = 36000001\<rparr>"
    by (simp add: plus_one_month_def days_in_month_def leap_year_def)
  show ?thesis
    unfolding v fst_conv activation_def
    by (simp add: sample_io e c s shop_def)
qed

section \<open>A discount code of the other tier\<close>

text \<open>
  Claim C6. For a plan of \<^verbatim>\<open>PLANS\<close> (its id, or its id followed by \<^verbatim>\<open>_discounted\<close>) and a
  discount code of the catalog that is not restricted to the tier of the plan, the
  handler does not fail on the code: it sends the gateway the base price of the plan as
  the amount and as \<^verbatim>\<open>finalAmount\<close>, with \<^verbatim>\<open>discountCode\<close> null.
\<close>

theorem discount_other_tier_ignored:
  assumes "p \<in> set PLANS" "pl = plan_id p \<or> pl = plan_id p @ ''_discounted''"
    and "DISCOUNT_CODES (toUpperCase dc) = Some d"
    and "\<not> ((plan_name p = ''Standard'' \<and> standardOnly d) \<or> (plan_name p = ''Pro'' \<and> proOnly d))"
    and "single (filter (\<lambda>u. uid u = caller_id c) (users st)) = Some u"
  shows "\<exists>sent.
           fst (snd (payment_initialize F (Authenticated c)
                      \<lparr>req_plan = Some pl, req_discountCode = Some dc\<rparr> reply st)) = Some sent \<and>
           gw_amount sent = BASE_PRICES (plan_id p) \<and>
           finalAmount (gw_metadata sent) = originalAmount (gw_metadata sent) \<and>
           originalAmount (gw_metadata sent) = BASE_PRICES (plan_id p) \<and>
           discountCode (gw_metadata sent) = None"
proof -
  have key: "replace pl ''_discounted'' [] = plan_id p"
    using assms(1,2) by (rule plan_key)
  have ok: "truthy (BASE_PRICES (replace pl ''_discounted'' []))"
    using plan_price_truthy[OF assms(1)] key by simp
  show ?thesis
    using initialize_sends[OF assms(5) ok, of F "Some dc" reply]
      apply_mismatch[OF assms(1-4), of "BASE_PRICES (plan_id p)"] key by simp
qed

text \<open>A pro code on the monthly standard plan: the amount stays 1600000.\<close>

theorem discount_other_tier_ignored_witness:
  "\<exists>sent. fst (snd (payment_initialize ''https://mzone.example'' (Authenticated as_ada)
                \<lparr>req_plan = Some ''standard_monthly'', req_discountCode = Some ''MP8A-QX47-L9TZ''\<rparr>
                Threw shop)) = Some sent \<and>
           gw_amount sent = Num 1600000 \<and> finalAmount (gw_metadata sent) = Num 1600000 \<and>
           discountCode (gw_metadata sent) = None"
proof -
  let ?d = "\<lparr>name = ''MP8A-QX47-L9TZ'', standard = Undefined, pro = Num 1100000,
             standardOnly = False, proOnly = True\<rparr>"
  let ?m = "\<lparr>plan_id = ''standard_monthly'', plan_name = ''Standard'',
             interval = ''monthly'', price = 16000\<rparr>"
  have code: "DISCOUNT_CODES (toUpperCase ''MP8A-QX47-L9TZ'') = Some ?d"
    by (simp add: DISCOUNT_CODES_def toUpperCase_def upper_char_def)
  have tier: "\<not> ((plan_name ?m = ''Standard'' \<and> standardOnly ?d) \<or> (plan_name ?m = ''Pro'' \<and> proOnly ?d))"
    by simp
  have pm: "?m \<in> set PLANS"
    by (simp add: PLANS_def)
  have fm: "''standard_monthly'' = plan_id ?m \<or> ''standard_monthly'' = plan_id ?m @ ''_discounted''"
    by simp
  show ?thesis
    using discount_other_tier_ignored[OF pm fm code tier sample_caller, of "''https://mzone.example''" Threw]
    by (auto simp: BASE_PRICES_def)
qed

section \<open>A plan that is not in the price table\<close>

text \<open>
  Claim C7 at the input where the handler departs from it. The check
  \<^verbatim>\<open>!BASE_PRICES[planKey]\<close> is meant to turn away every key that is not in the table, and
  does so for the keys of \<open>unknown_plan_rejected\<close>; but \<^verbatim>\<open>constructor\<close> names a member that
  the table inherits, the check lets it through, and the handler goes on to call the
  gateway, with that member as the amount.
\<close>

theorem inherited_key_reaches_gateway:
  "payment_initialize ''https://mzone.example'' (Authenticated as_ada)
      \<lparr>req_plan = Some ''constructor'', req_discountCode = None\<rparr> Threw shop =
     (shop,
      Some \<lparr>gw_email = ''ada@example.com'', gw_amount = Inherited ''constructor'',
            gw_currency = ''NGN'',
            gw_metadata =
              \<lparr>userId = Some ''u1'', fullName = Some ''Ada Obi'', plan = Some ''constructor'',
               discountCode = None, originalAmount = Inherited ''constructor'',
               finalAmount = Inherited ''constructor''\<rparr>,
            gw_callback_url = ''https://mzone.example/dashboard.html''\<rparr>,
      (500, Message ''Payment initialization failed''))"
  by (simp add: payment_initialize_def shop_def ada_def bayo_def as_ada_def BASE_PRICES_def
      object_prototype_keys_def apply_discount_def Let_def)

section \<open>A charge that did not succeed\<close>

text \<open>
  Claim C8. When the gateway answers the verification with a record whose status is not
  \<^verbatim>\<open>success\<close>, the verify route answers 400 \<^verbatim>\<open>Payment verification failed\<close> and returns the
  store as it was: no row is inserted and no user is touched.
\<close>

theorem verify_non_success:
  assumes "verify_payload b = Some d" and "status d \<noteq> ''success''"
  shows "payment_verify (Authenticated c) ref (Returned (Some b)) env st =
           (st, (400, Message ''Payment verification failed''))"
  using assms by (simp add: payment_verify_def)

text \<open>An abandoned charge.\<close>

theorem verify_non_success_witness:
  "payment_verify (Authenticated as_ada) ''ref_1''
      (Returned (Some \<lparr>verify_payload = Some (paid\<lparr>status := ''abandoned''\<rparr>)\<rparr>)) tick shop =
     (shop, (400, Message ''Payment verification failed''))"
proof -
  have a: "verify_payload \<lparr>verify_payload = Some (paid\<lparr>status := ''abandoned''\<rparr>)\<rparr> =
             Some (paid\<lparr>status := ''abandoned''\<rparr>)"
    by simp
  have b: "status (paid\<lparr>status := ''abandoned''\<rparr>) \<noteq> ''success''"
    by simp
  show ?thesis
    using verify_non_success[OF a b, of as_ada "''ref_1''" tick shop] .
qed

section \<open>Who is activated\<close>

text \<open>
  Claim C9. The verify route never reads who the caller is: for one reference, one answer
  of the gateway, one store and one clock, any two authenticated callers get the same
  response and leave the same store. On a successful charge the users marked are those
  whose id is the \<^verbatim>\<open>userId\<close> of the metadata, and the new row carries that \<^verbatim>\<open>userId\<close>.
\<close>

theorem verify_ignores_caller:
  "payment_verify (Authenticated ca) ref reply env st =
     payment_verify (Authenticated cb) ref reply env st \<and>
   (verify_payload b = Some d \<and> status d = ''success'' \<and> metadata d = Some md \<and>
    plan md = Some pl \<longrightarrow>
      users (fst (payment_verify (Authenticated ca) ref (Returned (Some b)) env st)) =
        (if update_ok env then mark_subscribed (userId md) (users st) else users st) \<and>
      (insert_ok env \<longrightarrow>
        (\<exists>row. subscriptions (fst (payment_verify (Authenticated ca) ref (Returned (Some b)) env st)) =
                 subscriptions st @ [row] \<and>
               user_id row = userId md \<and> sub_reference row = Some ref)))"
proof (intro conjI impI)
  show "payment_verify (Authenticated ca) ref reply env st =
        payment_verify (Authenticated cb) ref reply env st"
    by (simp add: payment_verify_def)
next
  assume h: "verify_payload b = Some d \<and> status d = ''success'' \<and> metadata d = Some md \<and>
    plan md = Some pl"
  then show "users (fst (payment_verify (Authenticated ca) ref (Returned (Some b)) env st)) =
        (if update_ok env then mark_subscribed (userId md) (users st) else users st)"
    by (simp add: verify_success activation_def)
next
  assume h: "verify_payload b = Some d \<and> status d = ''success'' \<and> metadata d = Some md \<and>
    plan md = Some pl" and i: "insert_ok env"
  then show "\<exists>row. subscriptions (fst (payment_verify (Authenticated ca) ref (Returned (Some b)) env st)) =
                 subscriptions st @ [row] \<and>
               user_id row = userId md \<and> sub_reference row = Some ref"
    by (simp add: verify_success activation_def)
qed

text \<open>The second user verifies the charge of the first: it is the first who is subscribed.\<close>

theorem verify_ignores_caller_witness:
  "payment_verify (Authenticated as_bayo) ''ref_1''
      (Returned (Some \<lparr>verify_payload = Some paid\<rparr>)) tick shop =
     payment_verify (Authenticated as_ada) ''ref_1''
      (Returned (Some \<lparr>verify_payload = Some paid\<rparr>)) tick shop \<and>
   users (fst (payment_verify (Authenticated as_bayo) ''ref_1''
      (Returned (Some \<lparr>verify_payload = Some paid\<rparr>)) tick shop)) =
     [ada\<lparr>is_subscribed := True\<rparr>, bayo]"
proof -
  let ?b = "\<lparr>verify_payload = Some paid\<rparr>"
  note t = verify_ignores_caller[where ca = as_bayo and cb = as_ada and ref = "''ref_1''"
      and reply = "Returned (Some ?b)" and env = tick and st = shop and b = ?b and d = paid
      and md = order and pl = "''standard_monthly''"]
  have h: "verify_payload ?b = Some paid \<and> status paid = ''success'' \<and>
           metadata paid = Some order \<and> plan order = Some ''standard_monthly''"
    by (simp add: sample_charge)
  have e: "mark_subscribed (userId order) (users shop) = [ada\<lparr>is_subscribed := True\<rparr>, bayo]"
    by (simp add: mark_subscribed_def order_def shop_def ada_def bayo_def)
  from t have "payment_verify (Authenticated as_bayo) ''ref_1'' (Returned (Some ?b)) tick shop =
     payment_verify (Authenticated as_ada) ''ref_1'' (Returned (Some ?b)) tick shop"
    by (rule conjunct1)
  moreover from t h
  have "users (fst (payment_verify (Authenticated as_bayo) ''ref_1'' (Returned (Some ?b)) tick shop)) =
     (if update_ok tick then mark_subscribed (userId order) (users shop) else users shop)"
    by blast
  ultimately show ?thesis unfolding e if_P[OF sample_io(1)] by simp
qed

section \<open>A charge for a user that does not exist\<close>




end
